theory Spec2Isabelle
  imports Main "HOL-Library.Word"
begin

section \<open>Errors\<close>

text \<open>
  The package declares three sentinel errors. Every other error value reaching
  \<open>Extract\<close> is made elsewhere (the operating system, the TrID wrapper, the ExifTool
  wrapper, \<open>fmt.Errorf\<close>): \<open>ForeignError ne msg\<close> is such a value, \<open>msg\<close> its
  \<open>Error()\<close> text and \<open>ne\<close> what \<open>os.IsNotExist\<close> answers on it.
\<close>

datatype error =
    ErrNoFileSpecified
  | ErrFileNotFound
  | ErrNoMetadataExtracted
  | ForeignError bool string

fun Error :: "error \<Rightarrow> string" where
  "Error ErrNoFileSpecified = ''no file specified''"
| "Error ErrFileNotFound = ''file not found''"
| "Error ErrNoMetadataExtracted = ''no metadata extracted''"
| "Error (ForeignError ne msg) = msg"

fun os_IsNotExist :: "error \<Rightarrow> bool" where
  "os_IsNotExist (ForeignError ne msg) = ne"
| "os_IsNotExist e = False"

text \<open>\<open>errors.Is\<close>: none of the errors above wraps another one, so it is equality.\<close>

definition errors_Is :: "error \<Rightarrow> error \<Rightarrow> bool" where
  "errors_Is err target = (err = target)"

text \<open>\<open>fmt.Errorf(prefix + "%v", err)\<close>: a fresh error carrying only the text.\<close>

definition fmt_Errorf :: "string \<Rightarrow> error \<Rightarrow> error" where
  "fmt_Errorf prefix err = ForeignError False (prefix @ Error err)"

section \<open>Data\<close>

text \<open>A \<open>time.Time\<close> is an offset from the zero time; the zero value is offset 0.\<close>

type_synonym Time = int

definition zero_Time :: Time where
  "zero_Time = 0"

record FileTime =
  ModTime :: Time
  AccessTime :: Time
  ChangeTime :: Time
  BirthTime :: Time

definition zero_FileTime :: FileTime where
  "zero_FileTime =
     \<lparr>ModTime = zero_Time, AccessTime = zero_Time, ChangeTime = zero_Time, BirthTime = zero_Time\<rparr>"

text \<open>\<open>trid.FileType\<close>, with the fields this package and its documentation read.\<close>

record FileType =
  Extension :: string
  Type :: string
  Mime :: string

text \<open>
  \<open>Metadata\<close>. A slice is a list (a nil slice and an empty one are both \<open>[]\<close>);
  the \<open>Exif\<close> map is \<open>None\<close> when nil, so that the empty map \<open>Some Map.empty\<close> is
  told apart from the absent one. \<open>'v\<close> stands for \<open>interface{}\<close>.
\<close>

record 'v Metadata =
  Name :: string
  Extension :: string
  ExtMismatch :: bool
  Size :: "64 word"
  Time :: FileTime
  Types :: "FileType list"
  Exif :: "(string \<rightharpoonup> 'v) option"

definition zero_Metadata :: "'v Metadata" where
  "zero_Metadata =
     \<lparr>Name = [], Extension = [], ExtMismatch = False, Size = 0, Time = zero_FileTime,
      Types = [], Exif = None\<rparr>"

record Options =
  TridPath :: string
  TridDefs :: string
  TridTimeout :: int
  TridMatches :: int
  ExifToolPath :: string

record trid_Options =
  Cmd :: string
  Definitions :: string
  Timeout :: int

datatype exiftool_option =
    ExtractAllBinaryMetadata
  | ExtractEmbedded
  | SetExiftoolBinaryPath string

record MetaExtractor =
  trid :: trid_Options
  tridMatches :: int
  exifToolOpts :: "exiftool_option list"

definition NewMetaExtractor :: "Options \<Rightarrow> MetaExtractor" where
  "NewMetaExtractor opts =
     (let opts = (if TridMatches opts \<le> 0 then opts\<lparr>TridMatches := 5\<rparr> else opts);
          exifToolOpts = [ExtractAllBinaryMetadata, ExtractEmbedded];
          exifToolOpts =
            (if ExifToolPath opts \<noteq> []
             then exifToolOpts @ [SetExiftoolBinaryPath (ExifToolPath opts)]
             else exifToolOpts)
      in \<lparr>trid = \<lparr>Cmd = TridPath opts, Definitions = TridDefs opts, Timeout = TridTimeout opts\<rparr>,
          tridMatches = TridMatches opts,
          exifToolOpts = exifToolOpts\<rparr>)"

section \<open>The world outside the package\<close>

text \<open>
  What \<open>os.Stat\<close> and \<open>times.Stat\<close> return: the size, and the four timestamps of
  which the change time and the birth time may be unsupported (\<open>HasChangeTime\<close>,
  \<open>HasBirthTime\<close> false).
\<close>

record FileInfo =
  fi_Size :: "64 word"

record Timespec =
  ts_ModTime :: Time
  ts_AccessTime :: Time
  ts_ChangeTime :: "Time option"
  ts_BirthTime :: "Time option"

definition HasChangeTime :: "Timespec \<Rightarrow> bool" where
  "HasChangeTime t = (ts_ChangeTime t \<noteq> None)"

definition HasBirthTime :: "Timespec \<Rightarrow> bool" where
  "HasBirthTime t = (ts_BirthTime t \<noteq> None)"

text \<open>One entry of \<open>ExtractMetadata\<close>'s result.\<close>

record 'v FileMetadata =
  File :: string
  Fields :: "(string \<rightharpoonup> 'v) option"
  Err :: "error option"

text \<open>
  The answers of the file system and of the two tools are parameters of the model.
  The two stat calls are two parameters: the file may change between them.
  \<open>unicode_ToLower\<close> is the standard library's Unicode lower-casing, which
  \<open>strings.ToLower\<close> applies to a string that has a byte outside ASCII.
\<close>

record 'v world =
  os_Stat :: "string \<Rightarrow> error + FileInfo"
  times_Stat :: "string \<Rightarrow> error + Timespec"
  trid_Scan :: "trid_Options \<Rightarrow> string \<Rightarrow> int \<Rightarrow> error + FileType list"
  exiftool_NewExiftool :: "exiftool_option list \<Rightarrow> error option"
  exiftool_ExtractMetadata :: "string \<Rightarrow> 'v FileMetadata list"
  unicode_ToLower :: "string \<Rightarrow> string"

text \<open>The calls a function makes to that world, in order.\<close>

datatype call =
    OsStat string
  | TimesStat string
  | TridScan string int
  | NewExiftool
  | ExtractMetadata string
  | ExiftoolClose

section \<open>Standard library string functions\<close>

text \<open>Strings are byte strings; the path separator is \<open>/\<close>.\<close>

definition IsPathSeparator :: "char \<Rightarrow> bool" where
  "IsPathSeparator c = (c = CHR ''/'')"

text \<open>
  \<open>filepath.Ext\<close>: the index runs down from the last byte and stops at a separator;
  \<open>Ext_from path (Suc i)\<close> is the loop at index \<open>i\<close>.
\<close>

fun Ext_from :: "string \<Rightarrow> nat \<Rightarrow> string" where
  "Ext_from path 0 = []"
| "Ext_from path (Suc i) =
     (if IsPathSeparator (path ! i) then []
      else if path ! i = CHR ''.'' then drop i path
      else Ext_from path i)"

definition Ext :: "string \<Rightarrow> string" where
  "Ext path = Ext_from path (length path)"

text \<open>\<open>filepath.Base\<close>: strip trailing separators, keep what follows the last one.\<close>

fun strip_trailing :: "string \<Rightarrow> string" where
  "strip_trailing path =
     (if path \<noteq> [] \<and> IsPathSeparator (last path) then strip_trailing (butlast path)
      else path)"

fun last_separator :: "string \<Rightarrow> nat \<Rightarrow> nat" where
  "last_separator path 0 = 0"
| "last_separator path (Suc i) =
     (if IsPathSeparator (path ! i) then Suc i else last_separator path i)"

definition Base :: "string \<Rightarrow> string" where
  "Base path =
     (if path = [] then ''.''
      else let path = strip_trailing path;
               path = drop (last_separator path (length path)) path
           in if path = [] then ''/'' else path)"

text \<open>\<open>strings.ToLower\<close>: bytewise on an ASCII string, through Unicode otherwise.\<close>

definition lower_byte :: "char \<Rightarrow> char" where
  "lower_byte c =
     (if (65::nat) \<le> of_char c \<and> of_char c \<le> (90::nat) then char_of (of_char c + (32::nat))
      else c)"

definition ToLower :: "'v world \<Rightarrow> string \<Rightarrow> string" where
  "ToLower w s =
     (if \<forall>c \<in> set s. of_char c < (128::nat) then map lower_byte s else unicode_ToLower w s)"

text \<open>\<open>strings.Contains\<close>: some suffix of \<open>s\<close> starts with \<open>substr\<close>.\<close>

fun HasPrefix :: "string \<Rightarrow> string \<Rightarrow> bool" where
  "HasPrefix s [] = True"
| "HasPrefix [] (p # ps) = False"
| "HasPrefix (c # cs) (p # ps) = (c = p \<and> HasPrefix cs ps)"

fun Contains :: "string \<Rightarrow> string \<Rightarrow> bool" where
  "Contains [] substr = (substr = [])"
| "Contains (c # cs) substr = (HasPrefix (c # cs) substr \<or> Contains cs substr)"

text \<open>
  \<open>strings.ReplaceAll\<close> and \<open>strings.Split\<close> for a non-empty \<open>old\<close> and \<open>sep\<close>:
  matches are taken from the left and do not overlap. (With an empty one the
  standard library works rune by rune; the package never passes one.)
\<close>

function ReplaceAll :: "string \<Rightarrow> string \<Rightarrow> string \<Rightarrow> string" where
  "ReplaceAll [] old new = []"
| "ReplaceAll (c # cs) old new =
     (if old \<noteq> [] \<and> HasPrefix (c # cs) old
      then new @ ReplaceAll (drop (length old) (c # cs)) old new
      else c # ReplaceAll cs old new)"
  by pat_completeness auto
termination
  by (relation "measure (\<lambda>(s, old, new). length s)") auto

function Split_from :: "string \<Rightarrow> string \<Rightarrow> string \<Rightarrow> string list" where
  "Split_from piece [] sep = [piece]"
| "Split_from piece (c # cs) sep =
     (if sep \<noteq> [] \<and> HasPrefix (c # cs) sep
      then piece # Split_from [] (drop (length sep) (c # cs)) sep
      else Split_from (piece @ [c]) cs sep)"
  by pat_completeness auto
termination
  by (relation "measure (\<lambda>(piece, s, sep). length s)") auto

definition Split :: "string \<Rightarrow> string \<Rightarrow> string list" where
  "Split s sep = Split_from [] s sep"

section \<open>The package's functions\<close>

text \<open>
  Each function returns its Go results (the value together with the error, \<open>None\<close>
  for nil) and the calls it made.
\<close>

definition getFileTimes :: "'v world \<Rightarrow> string \<Rightarrow> (FileTime \<times> error option) \<times> call list" where
  "getFileTimes w filePath =
     (case times_Stat w filePath of
        Inl err \<Rightarrow> ((zero_FileTime, Some err), [TimesStat filePath])
      | Inr t \<Rightarrow>
          (let changeTime = (if HasChangeTime t then the (ts_ChangeTime t) else zero_Time);
               birthTime = (if HasBirthTime t then the (ts_BirthTime t) else zero_Time)
           in ((\<lparr>ModTime = ts_ModTime t, AccessTime = ts_AccessTime t,
                 ChangeTime = changeTime, BirthTime = birthTime\<rparr>, None),
               [TimesStat filePath])))"

definition tridAnalysis ::
  "'v world \<Rightarrow> MetaExtractor \<Rightarrow> string \<Rightarrow> (error + FileType list) \<times> call list" where
  "tridAnalysis w me filePath =
     (trid_Scan w (trid me) filePath (tridMatches me), [TridScan filePath (tridMatches me)])"

definition extractExifData ::
  "'v world \<Rightarrow> MetaExtractor \<Rightarrow> string \<Rightarrow> (error + (string \<rightharpoonup> 'v) option) \<times> call list" where
  "extractExifData w me filePath =
     (case exiftool_NewExiftool w (exifToolOpts me) of
        Some err \<Rightarrow> (Inl (fmt_Errorf ''error initializing ExifTool: '' err), [NewExiftool])
      | None \<Rightarrow>
          (let fileInfos = exiftool_ExtractMetadata w filePath;
               calls = [NewExiftool, ExtractMetadata filePath, ExiftoolClose]
           in case fileInfos of
                [] \<Rightarrow> (Inl ErrNoMetadataExtracted, calls)
              | fi0 # rest \<Rightarrow>
                  (case Err fi0 of
                     Some err \<Rightarrow> (Inl (fmt_Errorf ''error extracting metadata: '' err), calls)
                   | None \<Rightarrow> (Inr (Fields fi0), calls))))"

text \<open>
  The loop over the alternatives of a \<open>/\<close>-separated extension field: the flag,
  set to true before the loop, is cleared at the first alternative that matches.
\<close>

fun match_alternatives :: "string list \<Rightarrow> string \<Rightarrow> bool \<Rightarrow> bool" where
  "match_alternatives [] ext mismatch = mismatch"
| "match_alternatives (e # es) ext mismatch =
     (if ''.'' @ e = ext then False else match_alternatives es ext mismatch)"

definition Extract ::
  "'v world \<Rightarrow> MetaExtractor \<Rightarrow> string \<Rightarrow> ('v Metadata \<times> error option) \<times> call list" where
  "Extract w me filePath =
     (let metadata = zero_Metadata in
      if filePath = [] then ((metadata, Some ErrNoFileSpecified), [])
      else
        (case os_Stat w filePath of
           Inl err \<Rightarrow>
             (if os_IsNotExist err then ((metadata, Some ErrFileNotFound), [OsStat filePath])
              else ((metadata, Some err), [OsStat filePath]))
         | Inr fileInfo \<Rightarrow>
             (let metadata = metadata\<lparr>Name := Base filePath\<rparr>;
                  metadata = metadata\<lparr>Extension := ToLower w (Ext filePath)\<rparr>;
                  metadata = metadata\<lparr>Size := fi_Size fileInfo\<rparr>;
                  calls = [OsStat filePath]
              in
              (case getFileTimes w filePath of
                 ((fileTime, Some err), cs) \<Rightarrow> ((metadata, Some err), calls @ cs)
               | ((fileTime, None), cs) \<Rightarrow>
                   (let metadata = metadata\<lparr>Time := fileTime\<rparr>;
                        calls = calls @ cs
                    in
                    (case tridAnalysis w me filePath of
                       (Inl err, cs) \<Rightarrow> ((metadata, Some err), calls @ cs)
                     | (Inr fileTypes, cs) \<Rightarrow>
                         (let metadata = metadata\<lparr>Types := fileTypes\<rparr>;
                              metadata =
                                (case fileTypes of
                                   [] \<Rightarrow> metadata
                                 | ft0 # rest \<Rightarrow>
                                     (if Contains (FileType.Extension ft0) ''/''
                                      then
                                        (let es = Split (ReplaceAll (FileType.Extension ft0)
                                                           ''.'' []) ''/''
                                         in metadata\<lparr>ExtMismatch :=
                                              match_alternatives es (Extension metadata) True\<rparr>)
                                      else if Extension metadata \<noteq> FileType.Extension ft0
                                      then metadata\<lparr>ExtMismatch := True\<rparr>
                                      else metadata));
                              calls = calls @ cs
                          in
                          (case extractExifData w me filePath of
                             (Inr exifData, cs) \<Rightarrow>
                               ((metadata\<lparr>Exif := exifData\<rparr>, None), calls @ cs)
                           | (Inl err, cs) \<Rightarrow>
                               (if errors_Is err ErrNoMetadataExtracted
                                then ((metadata\<lparr>Exif := Some Map.empty\<rparr>, None), calls @ cs)
                                else ((metadata, Some err), calls @ cs))))))))))"

section \<open>A world with fixed answers\<close>

text \<open>
  The world in which every call gets the same answer whatever its arguments; the
  concrete runs below are made in such worlds.
\<close>

definition fixed_world ::
  "error + FileInfo \<Rightarrow> error + Timespec \<Rightarrow> error + FileType list \<Rightarrow> error option \<Rightarrow>
   'v FileMetadata list \<Rightarrow> 'v world" where
  "fixed_world st ts tr ne em =
     \<lparr>os_Stat = (\<lambda>path. st), times_Stat = (\<lambda>path. ts), trid_Scan = (\<lambda>opts path n. tr),
      exiftool_NewExiftool = (\<lambda>opts. ne), exiftool_ExtractMetadata = (\<lambda>path. em),
      unicode_ToLower = (\<lambda>s. s)\<rparr>"

definition some_FileInfo :: FileInfo where
  "some_FileInfo = \<lparr>fi_Size = 1044\<rparr>"

definition some_Timespec :: Timespec where
  "some_Timespec =
     \<lparr>ts_ModTime = 1700000000, ts_AccessTime = 1700000100, ts_ChangeTime = None,
      ts_BirthTime = None\<rparr>"

definition some_MetaExtractor :: MetaExtractor where
  "some_MetaExtractor =
     NewMetaExtractor
       \<lparr>TridPath = [], TridDefs = [], TridTimeout = 0, TridMatches = 0, ExifToolPath = []\<rparr>"

definition candidate :: "string \<Rightarrow> FileType" where
  "candidate ext = \<lparr>FileType.Extension = ext, Type = ''some type'', Mime = ''some/mime''\<rparr>"

text \<open>Everything succeeds, TrID reports \<open>tys\<close> and ExifTool extracts nothing.\<close>

definition world_with :: "FileType list \<Rightarrow> nat world" where
  "world_with tys = fixed_world (Inr some_FileInfo) (Inr some_Timespec) (Inr tys) None []"

text \<open>The path does not exist.\<close>

definition world_missing :: "nat world" where
  "world_missing =
     fixed_world (Inl (ForeignError True ''no such file or directory'')) (Inr some_Timespec)
       (Inr []) None []"

text \<open>A stat failure that is not a missing file.\<close>

definition world_denied :: "nat world" where
  "world_denied =
     fixed_world (Inl (ForeignError False ''permission denied'')) (Inr some_Timespec)
       (Inr []) None []"

text \<open>The file is there at the first stat and gone at the second.\<close>

definition world_vanished :: "nat world" where
  "world_vanished =
     fixed_world (Inr some_FileInfo) (Inl (ForeignError True ''no such file or directory''))
       (Inr []) None []"

text \<open>TrID fails.\<close>

definition world_trid_fails :: "nat world" where
  "world_trid_fails =
     fixed_world (Inr some_FileInfo) (Inr some_Timespec)
       (Inl (ForeignError False ''trid: timeout'')) None []"

text \<open>TrID reports a PDF and ExifTool reports an error for the file.\<close>

definition world_exif_fails :: "nat world" where
  "world_exif_fails =
     fixed_world (Inr some_FileInfo) (Inr some_Timespec) (Inr [candidate ''.pdf'']) None
       [\<lparr>File = ''sample.doc'', Fields = None,
         Err = Some (ForeignError False ''file is corrupt'')\<rparr>]"

section \<open>A file system behind the stat call\<close>

text \<open>
  What \<open>os.Stat\<close> answers comes from the operating system's path lookup. For
  clean relative or absolute paths (no repeated or trailing separator, no \<open>.\<close> or
  \<open>..\<close> component, no symbolic link, every directory searchable) the lookup walks
  the directories on the way to the entry from left to right: a missing one ends it
  with \<open>ENOENT\<close>, one that is a regular file ends it with \<open>ENOTDIR\<close>. Of the two,
  \<open>os.IsNotExist\<close> holds for \<open>ENOENT\<close> only.
\<close>

datatype entry = RegularFile "64 word" | Directory "64 word"

type_synonym filesystem = "string \<rightharpoonup> entry"

definition ENOENT :: error where
  "ENOENT = ForeignError True ''no such file or directory''"

definition ENOTDIR :: error where
  "ENOTDIR = ForeignError False ''not a directory''"

text \<open>The directories on the way to \<open>path\<close>: what stands before each separator.\<close>

fun ancestors_from :: "string \<Rightarrow> string \<Rightarrow> string list" where
  "ancestors_from pre [] = []"
| "ancestors_from pre (c # cs) =
     (if IsPathSeparator c \<and> pre \<noteq> []
      then pre # ancestors_from (pre @ [c]) cs
      else ancestors_from (pre @ [c]) cs)"

definition ancestors :: "string \<Rightarrow> string list" where
  "ancestors path = ancestors_from [] path"

fun walk :: "filesystem \<Rightarrow> string list \<Rightarrow> error option" where
  "walk fs [] = None"
| "walk fs (d # ds) =
     (case fs d of
        None \<Rightarrow> Some ENOENT
      | Some (RegularFile n) \<Rightarrow> Some ENOTDIR
      | Some (Directory n) \<Rightarrow> walk fs ds)"

text \<open>The path names an entry of the file system.\<close>

definition entry_exists :: "filesystem \<Rightarrow> string \<Rightarrow> bool" where
  "entry_exists fs path = (walk fs (ancestors path) = None \<and> fs path \<noteq> None)"

definition fs_Stat :: "filesystem \<Rightarrow> string \<Rightarrow> error + FileInfo" where
  "fs_Stat fs path =
     (case walk fs (ancestors path) of
        Some err \<Rightarrow> Inl err
      | None \<Rightarrow>
          (case fs path of
             None \<Rightarrow> Inl ENOENT
           | Some (RegularFile n) \<Rightarrow> Inr \<lparr>fi_Size = n\<rparr>
           | Some (Directory n) \<Rightarrow> Inr \<lparr>fi_Size = n\<rparr>))"

text \<open>The world over a file system; TrID finds no candidate, ExifTool extracts nothing.\<close>

definition world_on :: "filesystem \<Rightarrow> nat world" where
  "world_on fs =
     \<lparr>os_Stat = fs_Stat fs,
      times_Stat =
        (\<lambda>path. case fs_Stat fs path of Inl err \<Rightarrow> Inl err | Inr fi \<Rightarrow> Inr some_Timespec),
      trid_Scan = (\<lambda>opts path n. Inr []),
      exiftool_NewExiftool = (\<lambda>opts. None),
      exiftool_ExtractMetadata = (\<lambda>path. []),
      unicode_ToLower = (\<lambda>s. s)\<rparr>"

text \<open>A file system holding the regular file \<open>plain.txt\<close> and nothing else.\<close>

definition fs_plain :: filesystem where
  "fs_plain = [''plain.txt'' \<mapsto> RegularFile 12]"

section \<open>String lemmas\<close>

lemma HasPrefix_single: "HasPrefix (c # cs) [d] = (c = d)"
  by simp

lemma Contains_single: "Contains s [c] = (c \<in> set s)"
  by (induction s) auto

lemma ReplaceAll_delete: "ReplaceAll s [c] [] = filter (\<lambda>x. x \<noteq> c) s"
  by (induction s) simp_all

lemma Split_from_delete:
  assumes "c \<noteq> d"
  shows "Split_from (filter (\<lambda>x. x \<noteq> c) piece) (filter (\<lambda>x. x \<noteq> c) s) [d] =
         map (filter (\<lambda>x. x \<noteq> c)) (Split_from piece s [d])"
proof (induction s arbitrary: piece)
  case Nil
  show ?case by simp
next
  case (Cons x xs)
  show ?case
  proof (cases "x = d")
    case True
    with assms have "x \<noteq> c" by simp
    with True show ?thesis using Cons.IH [of "[]"] by simp
  next
    case False
    show ?thesis
    proof (cases "x = c")
      case True
      with False show ?thesis using Cons.IH [of "piece @ [x]"] by simp
    next
      case nc: False
      with False show ?thesis using Cons.IH [of "piece @ [x]"] by simp
    qed
  qed
qed

lemma Split_ReplaceAll_commute:
  "Split (ReplaceAll s ''.'' []) ''/'' = map (\<lambda>a. ReplaceAll a ''.'' []) (Split s ''/'')"
  using Split_from_delete [of "CHR ''.''" "CHR ''/''" "[]" s]
  by (simp add: Split_def ReplaceAll_delete)

lemma match_alternatives_True:
  "match_alternatives es ext True = (\<not> (\<exists>e \<in> set es. ''.'' @ e = ext))"
  by (induction es) auto

lemma Ext_from_no_dot:
  assumes "\<forall>j. last_separator path n \<le> j \<and> j < n \<longrightarrow> path ! j \<noteq> CHR ''.''"
  shows "Ext_from path n = []"
  using assms
proof (induction n)
  case 0
  show ?case by simp
next
  case (Suc n)
  show ?case
  proof (cases "IsPathSeparator (path ! n)")
    case True
    then show ?thesis by simp
  next
    case False
    then have ls: "last_separator path (Suc n) = last_separator path n" by simp
    have le: "last_separator path n \<le> n"
      by (induction n) (auto simp: le_Suc_eq)
    from Suc.prems ls le have "path ! n \<noteq> CHR ''.''" by simp
    moreover have "Ext_from path n = []"
      using Suc.prems ls by (intro Suc.IH) auto
    ultimately show ?thesis using False by simp
  qed
qed

lemma Base_no_dot_Ext:
  assumes "CHR ''.'' \<notin> set (Base path)"
  shows "Ext path = []"
proof (cases "path = []")
  case True
  then show ?thesis by (simp add: Ext_def)
next
  case ne: False
  show ?thesis
  proof (cases "IsPathSeparator (last path)")
    case True
    from ne obtain n where n: "length path = Suc n" by (cases path) auto
    with ne True have "IsPathSeparator (path ! n)" by (simp add: last_conv_nth)
    with n show ?thesis by (simp add: Ext_def)
  next
    case False
    with ne have st: "strip_trailing path = path" by simp
    let ?k = "last_separator path (length path)"
    have nodot: "CHR ''.'' \<notin> set (drop ?k path)"
      using assms ne st by (auto simp: Base_def Let_def split: if_splits)
    have "\<forall>j. ?k \<le> j \<and> j < length path \<longrightarrow> path ! j \<noteq> CHR ''.''"
    proof (intro allI impI)
      fix j assume j: "?k \<le> j \<and> j < length path"
      then have "drop ?k path ! (j - ?k) = path ! j" and "j - ?k < length (drop ?k path)"
        by (simp, simp, arith)
      then have "path ! j \<in> set (drop ?k path)"
        by (metis nth_mem)
      with nodot show "path ! j \<noteq> CHR ''.''" by metis
    qed
    then show ?thesis unfolding Ext_def by (rule Ext_from_no_dot)
  qed
qed

lemma ToLower_empty: "ToLower w [] = []"
  by (simp add: ToLower_def)

section \<open>Unfolding the steps of Extract\<close>

lemma getFileTimes_Inr:
  "times_Stat w filePath = Inr t \<Longrightarrow>
   getFileTimes w filePath =
     ((\<lparr>ModTime = ts_ModTime t, AccessTime = ts_AccessTime t,
        ChangeTime = (case ts_ChangeTime t of None \<Rightarrow> zero_Time | Some c \<Rightarrow> c),
        BirthTime = (case ts_BirthTime t of None \<Rightarrow> zero_Time | Some b \<Rightarrow> b)\<rparr>, None),
      [TimesStat filePath])"
  by (simp add: getFileTimes_def HasChangeTime_def HasBirthTime_def Let_def split: option.splits)

lemma getFileTimes_Inl:
  "times_Stat w filePath = Inl err \<Longrightarrow>
   getFileTimes w filePath = ((zero_FileTime, Some err), [TimesStat filePath])"
  by (simp add: getFileTimes_def)

lemma Extract_fields_after_trid:
  assumes "filePath \<noteq> []" and "os_Stat w filePath = Inr fi"
    and "times_Stat w filePath = Inr t"
    and "trid_Scan w (trid me) filePath (tridMatches me) = Inr tys"
  shows "Name (fst (fst (Extract w me filePath))) = Base filePath"
    and "Extension (fst (fst (Extract w me filePath))) = ToLower w (Ext filePath)"
    and "Size (fst (fst (Extract w me filePath))) = fi_Size fi"
    and "Time (fst (fst (Extract w me filePath))) = fst (fst (getFileTimes w filePath))"
    and "Types (fst (fst (Extract w me filePath))) = tys"
    and "ExtMismatch (fst (fst (Extract w me filePath))) =
      (case tys of
         [] \<Rightarrow> False
       | ft0 # rest \<Rightarrow>
           if Contains (FileType.Extension ft0) ''/''
           then match_alternatives (Split (ReplaceAll (FileType.Extension ft0) ''.'' []) ''/'')
                  (ToLower w (Ext filePath)) True
           else ToLower w (Ext filePath) \<noteq> FileType.Extension ft0)"
proof -
  obtain r cs where ex: "extractExifData w me filePath = (r, cs)"
    by (cases "extractExifData w me filePath")
  note defs = Extract_def tridAnalysis_def Let_def zero_Metadata_def getFileTimes_Inr [OF assms(3)]
  show "Name (fst (fst (Extract w me filePath))) = Base filePath"
    using assms ex by (cases r; cases tys) (simp_all add: defs)
  show "Extension (fst (fst (Extract w me filePath))) = ToLower w (Ext filePath)"
    using assms ex by (cases r; cases tys) (simp_all add: defs)
  show "Size (fst (fst (Extract w me filePath))) = fi_Size fi"
    using assms ex by (cases r; cases tys) (simp_all add: defs)
  show "Time (fst (fst (Extract w me filePath))) = fst (fst (getFileTimes w filePath))"
    using assms ex by (cases r; cases tys) (simp_all add: defs)
  show "Types (fst (fst (Extract w me filePath))) = tys"
    using assms ex by (cases r; cases tys) (simp_all add: defs)
  show "ExtMismatch (fst (fst (Extract w me filePath))) =
      (case tys of
         [] \<Rightarrow> False
       | ft0 # rest \<Rightarrow>
           if Contains (FileType.Extension ft0) ''/''
           then match_alternatives (Split (ReplaceAll (FileType.Extension ft0) ''.'' []) ''/'')
                  (ToLower w (Ext filePath)) True
           else ToLower w (Ext filePath) \<noteq> FileType.Extension ft0)"
    using assms ex by (cases r; cases tys) (simp_all add: defs)
qed

section \<open>Evaluating the fixed worlds\<close>

lemmas worlds = fixed_world_def world_with_def world_missing_def world_denied_def
  world_vanished_def world_trid_fails_def world_exif_fails_def some_FileInfo_def
  some_Timespec_def candidate_def

lemmas run_defs = Extract_def getFileTimes_def tridAnalysis_def extractExifData_def
  HasChangeTime_def HasBirthTime_def errors_Is_def fmt_Errorf_def zero_Metadata_def
  zero_FileTime_def zero_Time_def some_MetaExtractor_def NewMetaExtractor_def Let_def
  Ext_def Base_def IsPathSeparator_def ToLower_def lower_byte_def Split_def

section \<open>The extension check\<close>

text \<open>
  C1 (as the code has it). When TrID reports at least one candidate and the top
  candidate's extension field has no \<open>/\<close>, \<open>ExtMismatch\<close> is false exactly when
  that field equals the file's lower-cased extension, which carries its leading dot.
  So the field \<open>.doc\<close> matches \<open>sample.doc\<close> and not \<open>sample.txt\<close>, and the field
  \<open>doc\<close> matches neither.
\<close>

theorem Extract_mismatch_single_extension:
  assumes "filePath \<noteq> []" and "os_Stat w filePath = Inr fi"
    and "times_Stat w filePath = Inr t"
    and "trid_Scan w (trid me) filePath (tridMatches me) = Inr (ft0 # rest)"
    and "CHR ''/'' \<notin> set (FileType.Extension ft0)"
  shows "ExtMismatch (fst (fst (Extract w me filePath))) =
           (FileType.Extension ft0 \<noteq> ToLower w (Ext filePath))"
  using Extract_fields_after_trid(6) [OF assms(1-4)] assms(5)
  by (auto simp: Contains_single)

theorem Extract_mismatch_single_extension_witness:
  "\<not> ExtMismatch (fst (fst (Extract (world_with [candidate ''.doc'']) some_MetaExtractor
       ''sample.doc''))) \<and>
   ExtMismatch (fst (fst (Extract (world_with [candidate ''.doc'']) some_MetaExtractor
       ''sample.txt''))) \<and>
   ExtMismatch (fst (fst (Extract (world_with [candidate ''doc'']) some_MetaExtractor
       ''sample.txt'')))"
  using
    Extract_mismatch_single_extension
      [of "''sample.doc''" "world_with [candidate ''.doc'']" some_FileInfo some_Timespec
          some_MetaExtractor "candidate ''.doc''" "[]"]
    Extract_mismatch_single_extension
      [of "''sample.txt''" "world_with [candidate ''.doc'']" some_FileInfo some_Timespec
          some_MetaExtractor "candidate ''.doc''" "[]"]
    Extract_mismatch_single_extension
      [of "''sample.txt''" "world_with [candidate ''doc'']" some_FileInfo some_Timespec
          some_MetaExtractor "candidate ''doc''" "[]"]
  by (simp add: worlds Ext_def IsPathSeparator_def ToLower_def lower_byte_def)

text \<open>
  C1 (as the spec states it) fails: with the top candidate's field \<open>doc\<close> and the
  file \<open>sample.doc\<close>, whose extension is \<open>.doc\<close>, \<open>ExtMismatch\<close> is true.
\<close>

theorem Extract_doc_field_counterexample:
  "Extension (fst (fst (Extract (world_with [candidate ''doc'']) some_MetaExtractor
       ''sample.doc''))) = ''.doc'' \<and>
   Types (fst (fst (Extract (world_with [candidate ''doc'']) some_MetaExtractor
       ''sample.doc''))) = [candidate ''doc''] \<and>
   FileType.Extension (candidate ''doc'') = ''doc'' \<and>
   snd (fst (Extract (world_with [candidate ''doc'']) some_MetaExtractor ''sample.doc'')) = None \<and>
   ExtMismatch (fst (fst (Extract (world_with [candidate ''doc'']) some_MetaExtractor
       ''sample.doc''))) = True"
  by (simp add: run_defs worlds)

text \<open>
  C2. When the top candidate's extension field contains a \<open>/\<close>, \<open>ExtMismatch\<close> is
  the negation of: some \<open>/\<close>-separated alternative of the field, its dots removed and
  a dot put in front, equals the file's lower-cased extension.
\<close>

theorem Extract_mismatch_alternatives:
  assumes "filePath \<noteq> []" and "os_Stat w filePath = Inr fi"
    and "times_Stat w filePath = Inr t"
    and "trid_Scan w (trid me) filePath (tridMatches me) = Inr (ft0 # rest)"
    and "CHR ''/'' \<in> set (FileType.Extension ft0)"
  shows "ExtMismatch (fst (fst (Extract w me filePath))) =
           (\<not> (\<exists>a \<in> set (Split (FileType.Extension ft0) ''/'').
                 ''.'' @ ReplaceAll a ''.'' [] = ToLower w (Ext filePath)))"
  using Extract_fields_after_trid(6) [OF assms(1-4)] assms(5)
  by (simp add: Contains_single match_alternatives_True Split_ReplaceAll_commute)

theorem Extract_mismatch_alternatives_witness:
  "CHR ''/'' \<in> set (FileType.Extension (candidate ''jpg/jpeg'')) \<and>
   \<not> ExtMismatch (fst (fst (Extract (world_with [candidate ''jpg/jpeg'']) some_MetaExtractor
       ''photo.jpeg''))) \<and>
   ExtMismatch (fst (fst (Extract (world_with [candidate ''jpg/jpeg'']) some_MetaExtractor
       ''photo.png'')))"
  using
    Extract_mismatch_alternatives
      [of "''photo.jpeg''" "world_with [candidate ''jpg/jpeg'']" some_FileInfo some_Timespec
          some_MetaExtractor "candidate ''jpg/jpeg''" "[]"]
    Extract_mismatch_alternatives
      [of "''photo.png''" "world_with [candidate ''jpg/jpeg'']" some_FileInfo some_Timespec
          some_MetaExtractor "candidate ''jpg/jpeg''" "[]"]
  by (simp add: worlds Ext_def IsPathSeparator_def ToLower_def lower_byte_def Split_def)

text \<open>
  C7. When TrID succeeds with no candidate, \<open>ExtMismatch\<close> is false; and when the
  file's name has no dot, \<open>Extension\<close> is the empty string as well.
\<close>

theorem Extract_no_candidates:
  assumes "filePath \<noteq> []" and "os_Stat w filePath = Inr fi"
    and "times_Stat w filePath = Inr t"
    and "trid_Scan w (trid me) filePath (tridMatches me) = Inr []"
  shows "ExtMismatch (fst (fst (Extract w me filePath))) = False \<and>
         (CHR ''.'' \<notin> set (Name (fst (fst (Extract w me filePath)))) \<longrightarrow>
            Extension (fst (fst (Extract w me filePath))) = [])"
  using Extract_fields_after_trid(1,2,6) [OF assms]
  by (simp add: Base_no_dot_Ext ToLower_empty)

theorem Extract_no_candidates_witness:
  "CHR ''.'' \<notin> set (Name (fst (fst (Extract (world_with []) some_MetaExtractor ''empty'')))) \<and>
   ExtMismatch (fst (fst (Extract (world_with []) some_MetaExtractor ''empty''))) = False \<and>
   Extension (fst (fst (Extract (world_with []) some_MetaExtractor ''empty''))) = []"
  using Extract_no_candidates
    [of "''empty''" "world_with []" some_FileInfo some_Timespec some_MetaExtractor]
    Extract_fields_after_trid(1)
    [of "''empty''" "world_with []" some_FileInfo some_Timespec some_MetaExtractor "[]"]
  by (simp add: worlds Base_def IsPathSeparator_def)

text \<open>
  C9. A file whose name has no dot has the empty extension, and is flagged as
  mismatched whenever the top candidate's field is non-empty and has no \<open>/\<close>.
\<close>

theorem Extract_extensionless_mismatch:
  assumes "filePath \<noteq> []" and "os_Stat w filePath = Inr fi"
    and "times_Stat w filePath = Inr t"
    and "trid_Scan w (trid me) filePath (tridMatches me) = Inr (ft0 # rest)"
    and "CHR ''.'' \<notin> set (Name (fst (fst (Extract w me filePath))))"
    and "FileType.Extension ft0 \<noteq> []"
    and "CHR ''/'' \<notin> set (FileType.Extension ft0)"
  shows "Extension (fst (fst (Extract w me filePath))) = [] \<and>
         ExtMismatch (fst (fst (Extract w me filePath))) = True"
  using Extract_fields_after_trid(1,2,6) [OF assms(1-4)] assms(5-7)
  by (simp add: Base_no_dot_Ext ToLower_empty Contains_single)

theorem Extract_extensionless_mismatch_witness:
  "CHR ''.'' \<notin> set (Name (fst (fst (Extract (world_with [candidate ''.pdf''])
       some_MetaExtractor ''report'')))) \<and>
   Extension (fst (fst (Extract (world_with [candidate ''.pdf'']) some_MetaExtractor
       ''report''))) = [] \<and>
   ExtMismatch (fst (fst (Extract (world_with [candidate ''.pdf'']) some_MetaExtractor
       ''report''))) = True"
  using Extract_extensionless_mismatch
    [of "''report''" "world_with [candidate ''.pdf'']" some_FileInfo some_Timespec
        some_MetaExtractor "candidate ''.pdf''" "[]"]
    Extract_fields_after_trid(1)
    [of "''report''" "world_with [candidate ''.pdf'']" some_FileInfo some_Timespec
        some_MetaExtractor "[candidate ''.pdf'']"]
  by (simp add: worlds Base_def IsPathSeparator_def)

section \<open>Errors and partial results\<close>

text \<open>
  C5. For the empty path \<open>Extract\<close> fails with \<open>ErrNoFileSpecified\<close>, returns the
  zero-valued \<open>Metadata\<close>, and calls neither stat nor any tool.
\<close>

theorem Extract_empty_path:
  "Extract w me [] =
     ((\<lparr>Name = [], Extension = [], ExtMismatch = False, Size = 0,
        Time = \<lparr>ModTime = 0, AccessTime = 0, ChangeTime = 0, BirthTime = 0\<rparr>,
        Types = [], Exif = None\<rparr>,
       Some ErrNoFileSpecified),
      [])"
  by (simp add: Extract_def zero_Metadata_def zero_FileTime_def zero_Time_def)

text \<open>
  C6 (as the code has it). For a non-empty path on which \<open>os.Stat\<close> fails,
  \<open>Extract\<close> fails with \<open>ErrFileNotFound\<close> when \<open>os.IsNotExist\<close> holds of the
  failure, as it does when the entry or a directory on the way to it is missing, and
  with the failure itself otherwise.
\<close>

theorem Extract_file_not_found:
  assumes "filePath \<noteq> []" and "os_Stat w filePath = Inl err"
  shows "snd (fst (Extract w me filePath)) =
           Some (if os_IsNotExist err then ErrFileNotFound else err)"
  using assms by (simp add: Extract_def)

theorem Extract_file_not_found_witness:
  "\<not> entry_exists fs_plain ''nonexistent_file'' \<and>
   os_Stat (world_on fs_plain) ''nonexistent_file'' =
     Inl (ForeignError True ''no such file or directory'') \<and>
   snd (fst (Extract (world_on fs_plain) some_MetaExtractor ''nonexistent_file'')) =
     Some ErrFileNotFound \<and>
   \<not> entry_exists fs_plain ''missing/child.doc'' \<and>
   os_Stat (world_on fs_plain) ''missing/child.doc'' =
     Inl (ForeignError True ''no such file or directory'') \<and>
   snd (fst (Extract (world_on fs_plain) some_MetaExtractor ''missing/child.doc'')) =
     Some ErrFileNotFound \<and>
   os_Stat world_denied ''sample.doc'' = Inl (ForeignError False ''permission denied'') \<and>
   snd (fst (Extract world_denied some_MetaExtractor ''sample.doc'')) =
     Some (ForeignError False ''permission denied'')"
  using
    Extract_file_not_found
      [of "''nonexistent_file''" "world_on fs_plain"
          "ForeignError True ''no such file or directory''" some_MetaExtractor]
    Extract_file_not_found
      [of "''missing/child.doc''" "world_on fs_plain"
          "ForeignError True ''no such file or directory''" some_MetaExtractor]
    Extract_file_not_found
      [of "''sample.doc''" world_denied "ForeignError False ''permission denied''"
          some_MetaExtractor]
  by (simp add: worlds world_on_def fs_plain_def fs_Stat_def entry_exists_def ancestors_def
        IsPathSeparator_def ENOENT_def ENOTDIR_def)

text \<open>
  C6 (as the spec states it) fails: \<open>plain.txt/child.doc\<close>, in a file system where
  \<open>plain.txt\<close> is a regular file, names no entry, yet \<open>os.Stat\<close> fails with
  \<open>ENOTDIR\<close>, of which \<open>os.IsNotExist\<close> does not hold, and \<open>Extract\<close> returns that
  failure and not \<open>ErrFileNotFound\<close>.
\<close>

theorem Extract_not_a_directory_counterexample:
  "''plain.txt/child.doc'' \<noteq> [] \<and>
   \<not> entry_exists fs_plain ''plain.txt/child.doc'' \<and>
   os_Stat (world_on fs_plain) ''plain.txt/child.doc'' =
     Inl (ForeignError False ''not a directory'') \<and>
   \<not> os_IsNotExist (ForeignError False ''not a directory'') \<and>
   Extract (world_on fs_plain) some_MetaExtractor ''plain.txt/child.doc'' =
     ((zero_Metadata, Some (ForeignError False ''not a directory'')),
      [OsStat ''plain.txt/child.doc'']) \<and>
   snd (fst (Extract (world_on fs_plain) some_MetaExtractor ''plain.txt/child.doc'')) \<noteq>
     Some ErrFileNotFound"
  by (simp add: Extract_def world_on_def fs_plain_def fs_Stat_def entry_exists_def
        ancestors_def IsPathSeparator_def ENOENT_def ENOTDIR_def)

text \<open>
  C8. When the timestamp query succeeds, \<open>getFileTimes\<close> returns a nil error;
  \<open>ModTime\<close> and \<open>AccessTime\<close> are those of the stat result, and a change time or
  birth time that the stat result does not have leaves its field at the zero time.
\<close>

theorem getFileTimes_absent_times:
  assumes "times_Stat w filePath = Inr t"
  shows "getFileTimes w filePath =
     ((\<lparr>ModTime = ts_ModTime t, AccessTime = ts_AccessTime t,
        ChangeTime = (case ts_ChangeTime t of None \<Rightarrow> zero_Time | Some c \<Rightarrow> c),
        BirthTime = (case ts_BirthTime t of None \<Rightarrow> zero_Time | Some b \<Rightarrow> b)\<rparr>, None),
      [TimesStat filePath])"
  using assms
  by (simp add: getFileTimes_def HasChangeTime_def HasBirthTime_def Let_def split: option.splits)

theorem getFileTimes_absent_times_witness:
  "times_Stat (world_with []) ''test_file_times'' = Inr some_Timespec \<and>
   ts_ChangeTime some_Timespec = None \<and> ts_BirthTime some_Timespec = None \<and>
   getFileTimes (world_with []) ''test_file_times'' =
     ((\<lparr>ModTime = 1700000000, AccessTime = 1700000100, ChangeTime = 0, BirthTime = 0\<rparr>, None),
      [TimesStat ''test_file_times''])"
  using getFileTimes_absent_times [of "world_with []" "''test_file_times''" some_Timespec]
  by (simp add: worlds zero_Time_def)

text \<open>
  C4. When ExifTool starts and its result list for the file is empty,
  \<open>extractExifData\<close> reports \<open>ErrNoMetadataExtracted\<close>, and \<open>Extract\<close> returns a nil
  error with the empty (not the nil) tag map.
\<close>

theorem Extract_no_metadata_extracted:
  assumes "filePath \<noteq> []" and "os_Stat w filePath = Inr fi"
    and "times_Stat w filePath = Inr t"
    and "trid_Scan w (trid me) filePath (tridMatches me) = Inr tys"
    and "exiftool_NewExiftool w (exifToolOpts me) = None"
    and "exiftool_ExtractMetadata w filePath = []"
  shows "fst (extractExifData w me filePath) = Inl ErrNoMetadataExtracted \<and>
         snd (fst (Extract w me filePath)) = None \<and>
         Exif (fst (fst (Extract w me filePath))) = Some Map.empty"
  using assms
  by (cases tys)
     (simp_all add: Extract_def tridAnalysis_def extractExifData_def errors_Is_def Let_def
        getFileTimes_Inr)

theorem Extract_no_metadata_extracted_witness:
  "exiftool_ExtractMetadata (world_with [candidate ''.mp3'']) ''sample.mp3'' = [] \<and>
   snd (fst (Extract (world_with [candidate ''.mp3'']) some_MetaExtractor ''sample.mp3'')) = None \<and>
   Exif (fst (fst (Extract (world_with [candidate ''.mp3'']) some_MetaExtractor ''sample.mp3''))) =
     Some Map.empty"
  using Extract_no_metadata_extracted
    [of "''sample.mp3''" "world_with [candidate ''.mp3'']" some_FileInfo some_Timespec
        some_MetaExtractor "[candidate ''.mp3'']"]
  by (simp add: worlds)

text \<open>
  C3. After both stat calls have succeeded, a failure of TrID is returned with a
  result in which \<open>Name\<close>, \<open>Extension\<close>, \<open>Size\<close> and the timestamps are set; a failure
  of the tag extraction other than \<open>ErrNoMetadataExtracted\<close> is returned with a
  result in which \<open>Types\<close> and \<open>ExtMismatch\<close> are set as well.
\<close>

theorem Extract_partial_result_on_failure:
  assumes "filePath \<noteq> []" and "os_Stat w filePath = Inr fi"
    and "times_Stat w filePath = Inr t"
  shows "(\<forall>err. trid_Scan w (trid me) filePath (tridMatches me) = Inl err \<longrightarrow>
            Extract w me filePath =
              ((\<lparr>Name = Base filePath, Extension = ToLower w (Ext filePath),
                 ExtMismatch = False, Size = fi_Size fi,
                 Time =
                   \<lparr>ModTime = ts_ModTime t, AccessTime = ts_AccessTime t,
                    ChangeTime = (case ts_ChangeTime t of None \<Rightarrow> zero_Time | Some c \<Rightarrow> c),
                    BirthTime = (case ts_BirthTime t of None \<Rightarrow> zero_Time | Some b \<Rightarrow> b)\<rparr>,
                 Types = [], Exif = None\<rparr>,
                Some err),
               [OsStat filePath, TimesStat filePath, TridScan filePath (tridMatches me)]))
       \<and> (\<forall>tys err cs.
            trid_Scan w (trid me) filePath (tridMatches me) = Inr tys \<and>
            extractExifData w me filePath = (Inl err, cs) \<and>
            err \<noteq> ErrNoMetadataExtracted \<longrightarrow>
            Extract w me filePath =
              ((\<lparr>Name = Base filePath, Extension = ToLower w (Ext filePath),
                 ExtMismatch =
                   (case tys of
                      [] \<Rightarrow> False
                    | ft0 # rest \<Rightarrow>
                        if Contains (FileType.Extension ft0) ''/''
                        then match_alternatives
                               (Split (ReplaceAll (FileType.Extension ft0) ''.'' []) ''/'')
                               (ToLower w (Ext filePath)) True
                        else ToLower w (Ext filePath) \<noteq> FileType.Extension ft0),
                 Size = fi_Size fi,
                 Time =
                   \<lparr>ModTime = ts_ModTime t, AccessTime = ts_AccessTime t,
                    ChangeTime = (case ts_ChangeTime t of None \<Rightarrow> zero_Time | Some c \<Rightarrow> c),
                    BirthTime = (case ts_BirthTime t of None \<Rightarrow> zero_Time | Some b \<Rightarrow> b)\<rparr>,
                 Types = tys, Exif = None\<rparr>,
                Some err),
               [OsStat filePath, TimesStat filePath, TridScan filePath (tridMatches me)] @ cs))"
proof (intro conjI allI impI)
  fix err
  assume "trid_Scan w (trid me) filePath (tridMatches me) = Inl err"
  with assms show "Extract w me filePath =
              ((\<lparr>Name = Base filePath, Extension = ToLower w (Ext filePath),
                 ExtMismatch = False, Size = fi_Size fi,
                 Time =
                   \<lparr>ModTime = ts_ModTime t, AccessTime = ts_AccessTime t,
                    ChangeTime = (case ts_ChangeTime t of None \<Rightarrow> zero_Time | Some c \<Rightarrow> c),
                    BirthTime = (case ts_BirthTime t of None \<Rightarrow> zero_Time | Some b \<Rightarrow> b)\<rparr>,
                 Types = [], Exif = None\<rparr>,
                Some err),
               [OsStat filePath, TimesStat filePath, TridScan filePath (tridMatches me)])"
    by (simp add: Extract_def tridAnalysis_def Let_def zero_Metadata_def getFileTimes_Inr)
next
  fix tys err cs
  assume "trid_Scan w (trid me) filePath (tridMatches me) = Inr tys \<and>
          extractExifData w me filePath = (Inl err, cs) \<and>
          err \<noteq> ErrNoMetadataExtracted"
  with assms show "Extract w me filePath =
              ((\<lparr>Name = Base filePath, Extension = ToLower w (Ext filePath),
                 ExtMismatch =
                   (case tys of
                      [] \<Rightarrow> False
                    | ft0 # rest \<Rightarrow>
                        if Contains (FileType.Extension ft0) ''/''
                        then match_alternatives
                               (Split (ReplaceAll (FileType.Extension ft0) ''.'' []) ''/'')
                               (ToLower w (Ext filePath)) True
                        else ToLower w (Ext filePath) \<noteq> FileType.Extension ft0),
                 Size = fi_Size fi,
                 Time =
                   \<lparr>ModTime = ts_ModTime t, AccessTime = ts_AccessTime t,
                    ChangeTime = (case ts_ChangeTime t of None \<Rightarrow> zero_Time | Some c \<Rightarrow> c),
                    BirthTime = (case ts_BirthTime t of None \<Rightarrow> zero_Time | Some b \<Rightarrow> b)\<rparr>,
                 Types = tys, Exif = None\<rparr>,
                Some err),
               [OsStat filePath, TimesStat filePath, TridScan filePath (tridMatches me)] @ cs)"
    by (cases tys)
       (simp_all add: Extract_def tridAnalysis_def Let_def zero_Metadata_def getFileTimes_Inr
          errors_Is_def)
qed

theorem Extract_partial_result_on_failure_witness:
  "Extract world_trid_fails some_MetaExtractor ''sample.doc'' =
     ((\<lparr>Name = ''sample.doc'', Extension = ''.doc'', ExtMismatch = False, Size = 1044,
        Time = \<lparr>ModTime = 1700000000, AccessTime = 1700000100, ChangeTime = 0, BirthTime = 0\<rparr>,
        Types = [], Exif = None\<rparr>,
       Some (ForeignError False ''trid: timeout'')),
      [OsStat ''sample.doc'', TimesStat ''sample.doc'', TridScan ''sample.doc'' 5]) \<and>
   Extract world_exif_fails some_MetaExtractor ''sample.doc'' =
     ((\<lparr>Name = ''sample.doc'', Extension = ''.doc'', ExtMismatch = True, Size = 1044,
        Time = \<lparr>ModTime = 1700000000, AccessTime = 1700000100, ChangeTime = 0, BirthTime = 0\<rparr>,
        Types = [candidate ''.pdf''], Exif = None\<rparr>,
       Some (ForeignError False ''error extracting metadata: file is corrupt'')),
      [OsStat ''sample.doc'', TimesStat ''sample.doc'', TridScan ''sample.doc'' 5,
       NewExiftool, ExtractMetadata ''sample.doc'', ExiftoolClose])"
  using
    Extract_partial_result_on_failure
      [of "''sample.doc''" world_trid_fails some_FileInfo some_Timespec some_MetaExtractor]
    Extract_partial_result_on_failure
      [of "''sample.doc''" world_exif_fails some_FileInfo some_Timespec some_MetaExtractor]
  by (simp add: worlds extractExifData_def fmt_Errorf_def some_MetaExtractor_def
        NewMetaExtractor_def zero_Time_def Let_def
        Ext_def Base_def IsPathSeparator_def ToLower_def lower_byte_def)

text \<open>
  C10. \<open>Extract\<close> stats the file twice. A failure of the first stat is turned into
  \<open>ErrFileNotFound\<close> when it is a not-exist failure and returned as it is otherwise.
  A failure of the second stat, in \<open>getFileTimes\<close>, is returned as it is whatever it
  is, with \<open>Name\<close>, \<open>Extension\<close> and \<open>Size\<close> set and every timestamp zero.
\<close>

theorem Extract_two_stat_calls:
  assumes "filePath \<noteq> []"
  shows "(\<forall>err. os_Stat w filePath = Inl err \<longrightarrow>
            Extract w me filePath =
              ((zero_Metadata, Some (if os_IsNotExist err then ErrFileNotFound else err)),
               [OsStat filePath]))
       \<and> (\<forall>fi err. os_Stat w filePath = Inr fi \<and> times_Stat w filePath = Inl err \<longrightarrow>
            Extract w me filePath =
              ((\<lparr>Name = Base filePath, Extension = ToLower w (Ext filePath),
                 ExtMismatch = False, Size = fi_Size fi,
                 Time = \<lparr>ModTime = 0, AccessTime = 0, ChangeTime = 0, BirthTime = 0\<rparr>,
                 Types = [], Exif = None\<rparr>,
                Some err),
               [OsStat filePath, TimesStat filePath]))"
  using assms
  by (simp add: Extract_def Let_def zero_Metadata_def zero_FileTime_def zero_Time_def
        getFileTimes_Inl)

theorem Extract_two_stat_calls_witness:
  "snd (fst (Extract world_missing some_MetaExtractor ''gone.txt'')) = Some ErrFileNotFound \<and>
   snd (fst (Extract world_denied some_MetaExtractor ''gone.txt'')) =
     Some (ForeignError False ''permission denied'') \<and>
   os_IsNotExist (ForeignError True ''no such file or directory'') \<and>
   Extract world_vanished some_MetaExtractor ''gone.txt'' =
     ((\<lparr>Name = ''gone.txt'', Extension = ''.txt'', ExtMismatch = False, Size = 1044,
        Time = \<lparr>ModTime = 0, AccessTime = 0, ChangeTime = 0, BirthTime = 0\<rparr>,
        Types = [], Exif = None\<rparr>,
       Some (ForeignError True ''no such file or directory'')),
      [OsStat ''gone.txt'', TimesStat ''gone.txt''])"
  using
    Extract_two_stat_calls [of "''gone.txt''" world_missing some_MetaExtractor]
    Extract_two_stat_calls [of "''gone.txt''" world_denied some_MetaExtractor]
    Extract_two_stat_calls [of "''gone.txt''" world_vanished some_MetaExtractor]
  by (simp add: worlds Ext_def Base_def IsPathSeparator_def ToLower_def lower_byte_def)

end
